theory Spec2Isabelle
  imports Complex_Main "HOL-Library.Word" "HOL-Library.Sublist"
begin

section \<open>JavaScript values used by the analyzers\<close>

subsection \<open>Strings\<close>

text \<open>
  A JavaScript string is a sequence of 16-bit code units. String literals of the
  sources are written \<open>lit ''...''\<close>; a code unit outside ASCII is written as a number
  (the arrow of \<open>'Local \<rightarrow> Global'\<close> is \<open>0x2192\<close>).
\<close>

type_synonym jschar = "16 word"
type_synonym jsstring = "jschar list"

definition lit :: "string \<Rightarrow> jsstring" where
  "lit s = map of_char s"

text \<open>
  \<open>String.prototype.toLowerCase\<close> is a built-in of the language. The model folds the
  Basic Latin letters \<open>A\<close>..\<open>Z\<close> and leaves every other code unit as it is, which is
  what the built-in does on the texts, colours and font names of the sources.
\<close>

definition lowerUnit :: "jschar \<Rightarrow> jschar" where
  "lowerUnit c = (if 0x41 \<le> c \<and> c \<le> 0x5A then c + 0x20 else c)"

definition toLowerCase :: "jsstring \<Rightarrow> jsstring" where
  "toLowerCase s = map lowerUnit s"

text \<open>The class \<open>\s\<close> of a regular expression, also what \<open>trim()\<close> removes at both ends.\<close>

definition isWhiteSpace :: "jschar \<Rightarrow> bool" where
  "isWhiteSpace c \<longleftrightarrow>
     c = 0x09 \<or> c = 0x0A \<or> c = 0x0B \<or> c = 0x0C \<or> c = 0x0D \<or> c = 0x20 \<or> c = 0xA0 \<or>
     c = 0x1680 \<or> (0x2000 \<le> c \<and> c \<le> 0x200A) \<or> c = 0x2028 \<or> c = 0x2029 \<or>
     c = 0x202F \<or> c = 0x205F \<or> c = 0x3000 \<or> c = 0xFEFF"

definition trim :: "jsstring \<Rightarrow> jsstring" where
  "trim s = rev (dropWhile isWhiteSpace (rev (dropWhile isWhiteSpace s)))"

text \<open>\<open>s.includes(t)\<close>: \<open>t\<close> starts at some position of \<open>s\<close>.\<close>

fun str_includes :: "jsstring \<Rightarrow> jsstring \<Rightarrow> bool" where
  "str_includes [] t = (t = [])"
| "str_includes (c # s) t = (prefix t (c # s) \<or> str_includes s t)"

text \<open>\<open>Array.prototype.join(sep)\<close>.\<close>

fun join :: "jsstring \<Rightarrow> jsstring list \<Rightarrow> jsstring" where
  "join sep [] = []"
| "join sep [x] = x"
| "join sep (x # y # ys) = x @ sep @ join sep (y # ys)"

subsection \<open>Numbers\<close>

text \<open>
  The scores are JavaScript numbers. A division by zero does not throw: it yields
  \<open>NaN\<close> or an infinity. Finite values are kept exact (rounding is not modelled).
\<close>

datatype jsnum = Num real | PosInfinity | NegInfinity | NaN

text \<open>\<open>a / b\<close> for finite operands.\<close>

definition js_div :: "real \<Rightarrow> real \<Rightarrow> jsnum" where
  "js_div a b =
     (if b \<noteq> 0 then Num (a / b)
      else if a = 0 then NaN
      else if 0 < a then PosInfinity else NegInfinity)"

text \<open>\<open>x * c\<close> for a finite constant \<open>c\<close>.\<close>

fun js_times :: "jsnum \<Rightarrow> real \<Rightarrow> jsnum" where
  "js_times (Num a) c = Num (a * c)"
| "js_times PosInfinity c = (if 0 < c then PosInfinity else if c < 0 then NegInfinity else NaN)"
| "js_times NegInfinity c = (if 0 < c then NegInfinity else if c < 0 then PosInfinity else NaN)"
| "js_times NaN c = NaN"

text \<open>\<open>x >= c\<close> for a finite constant \<open>c\<close>; every comparison with \<open>NaN\<close> is false.\<close>

fun js_ge :: "jsnum \<Rightarrow> real \<Rightarrow> bool" where
  "js_ge (Num a) c = (c \<le> a)"
| "js_ge PosInfinity c = True"
| "js_ge NegInfinity c = False"
| "js_ge NaN c = False"

subsection \<open>Images, errors, screenshots and issues\<close>

text \<open>A decoded PNG: \<open>width\<close>, \<open>height\<close> and the RGBA bytes of \<open>data\<close>.\<close>

record image =
  width :: nat
  height :: nat
  data :: "8 word list"

text \<open>
  What a \<open>try\<close> block can catch: a file that does not exist (\<open>fs.access\<close>,
  \<open>fs.readFile\<close>, \<open>fs.copyFile\<close>), the pixel differ's refusal of images of different
  sizes, and an error thrown by the browser with its message.
\<close>

datatype js_error = ENOENT jsstring | DimensionMismatch | Thrown jsstring

text \<open>
  An entry of \<open>this.screenshots\<close>. \<open>found\<close> is \<open>None\<close> where the source does not set
  the field (it is then \<open>undefined\<close>). The fields \<open>timestamp\<close>, \<open>description\<close> and
  \<open>viewport\<close> are never read by the analyzers and are left out.
\<close>

record shot =
  name :: jsstring
  path :: jsstring
  found :: "bool option"

text \<open>
  An entry of \<open>this.issues\<close>, one constructor for each object literal the sources
  push:
  \<^item> \<open>{type: 'visual_diff', pixelsChanged}\<close>
  \<^item> \<open>{type: 'missing_section', section}\<close>, in quick-start.js with a \<open>description\<close>
  \<^item> \<open>{type: 'error', section, message}\<close>
  \<^item> \<open>{type: 'style_mismatch', section, message}\<close>
  \<^item> \<open>{type: 'analysis_error', section, error}\<close>
  \<^item> \<open>{type: 'missing_content', expectedText, description}\<close>
\<close>

datatype issue =
    Visual_diff nat
  | Missing_section jsstring "jsstring option"
  | Error_issue jsstring jsstring
  | Style_mismatch jsstring jsstring
  | Analysis_error jsstring jsstring
  | Missing_content jsstring jsstring

fun issue_type :: "issue \<Rightarrow> jsstring" where
  "issue_type (Visual_diff n) = lit ''visual_diff''"
| "issue_type (Missing_section s d) = lit ''missing_section''"
| "issue_type (Error_issue s m) = lit ''error''"
| "issue_type (Style_mismatch s m) = lit ''style_mismatch''"
| "issue_type (Analysis_error s m) = lit ''analysis_error''"
| "issue_type (Missing_content t d) = lit ''missing_content''"

subsection \<open>The browser page\<close>

text \<open>
  The loaded page as the analyzers use it through Playwright. A call that the sources
  guard with a \<open>try\<close> returns \<open>Inl\<close> with the error's message when it throws; the
  capture of the whole page and the extraction of the text are taken to return.
  \<^item> \<open>navigation\<close>: \<open>page.goto(url)\<close>, \<open>Some\<close> message when it throws
  \<^item> \<open>pageScreenshot\<close>: \<open>page.screenshot({fullPage: true})\<close>
  \<^item> \<open>isVisible sel\<close>: \<open>page.locator(sel).first().isVisible()\<close>
  \<^item> \<open>elScreenshot sel\<close>: \<open>page.locator(sel).first().screenshot()\<close>
  \<^item> \<open>getComputedStyle sel prop\<close>: the \<open>evaluate\<close> call of \<open>validateStyles\<close>
  \<^item> \<open>extractText\<close>: the \<open>evaluate\<close> call of \<open>performContentAnalysis\<close>
\<close>

record text_item =
  itemText :: jsstring
  visible :: bool

record text_content =
  headings :: "text_item list"
  paragraphs :: "text_item list"
  buttons :: "text_item list"
  links :: "text_item list"

record browser_page =
  navigation :: "jsstring option"
  pageScreenshot :: image
  isVisible :: "jsstring \<Rightarrow> jsstring + bool"
  elScreenshot :: "jsstring \<Rightarrow> jsstring + image"
  getComputedStyle :: "jsstring \<Rightarrow> jsstring \<Rightarrow> jsstring + jsstring"
  extractText :: text_content

section \<open>The multi-page analyzer (qa-analyzer.mjs)\<close>

text \<open>
  The state of \<open>EnhancedQAAnalyzer\<close>: the two lists of the object, the section
  configuration, and the files on disk that the analyzer reads and writes.
\<close>

record analyzer =
  issues :: "issue list"
  screenshots :: "shot list"

record enhanced = analyzer +
  files :: "jsstring \<rightharpoonup> image"
  figmaDesignSpecs :: "(jsstring \<rightharpoonup> jsstring list) option"
  defaultSections :: "jsstring \<rightharpoonup> jsstring list"

definition path_join :: "jsstring \<Rightarrow> jsstring \<Rightarrow> jsstring" where
  "path_join dir file = dir @ lit ''/'' @ file"

definition currentPath :: "jsstring \<Rightarrow> jsstring" where
  "currentPath dir = path_join dir (lit ''current.png'')"

definition baselinePath :: "jsstring \<Rightarrow> jsstring" where
  "baselinePath dir = path_join dir (lit ''baseline.png'')"

definition diffPath :: "jsstring \<Rightarrow> jsstring" where
  "diffPath dir = path_join dir (lit ''diff.png'')"

definition fs_access :: "(jsstring \<rightharpoonup> image) \<Rightarrow> jsstring \<Rightarrow> js_error + unit" where
  "fs_access fs p = (case fs p of None \<Rightarrow> Inl (ENOENT p) | Some f \<Rightarrow> Inr ())"

definition readPNG :: "(jsstring \<rightharpoonup> image) \<Rightarrow> jsstring \<Rightarrow> js_error + image" where
  "readPNG fs p = (case fs p of None \<Rightarrow> Inl (ENOENT p) | Some f \<Rightarrow> Inr f)"

definition copyFile ::
  "(jsstring \<rightharpoonup> image) \<Rightarrow> jsstring \<Rightarrow> jsstring \<Rightarrow> js_error + (jsstring \<rightharpoonup> image)" where
  "copyFile fs src dst = (case fs src of None \<Rightarrow> Inl (ENOENT src) | Some f \<Rightarrow> Inr (fs(dst \<mapsto> f)))"

text \<open>
  Modelled from the spec: the Pixel Differ. The sources call the third-party package
  \<open>pixelmatch\<close>, which is not part of the repository, as
  \<open>pixelmatch(img1.data, img2.data, diff.data, width, height, {threshold: 0.1})\<close>:
  it is handed the two pixel buffers and one width and height, and fills the buffer
  of the difference image. By the spec it requires equal dimensions and fails with
  \<open>DimensionMismatch\<close> otherwise. What it can check on its arguments is that each
  buffer holds the four bytes of \<open>width * height\<close> pixels, and so it does. The
  comparison of the pixels (at the threshold the sources pass) and the drawing of
  the difference are an implementation choice, taken here as the parameter \<open>cmp\<close>,
  which returns the bytes of the difference image and the number of changed pixels.
\<close>

type_synonym pixel_compare = "8 word list \<Rightarrow> 8 word list \<Rightarrow> nat \<Rightarrow> nat \<Rightarrow> 8 word list \<times> nat"

definition pixelmatch ::
  "pixel_compare \<Rightarrow> 8 word list \<Rightarrow> 8 word list \<Rightarrow> nat \<Rightarrow> nat \<Rightarrow> js_error + 8 word list \<times> nat" where
  "pixelmatch cmp img1 img2 w h =
     (if length img1 = length img2 \<and> length img1 = w * h * 4
      then Inr (cmp img1 img2 w h) else Inl DimensionMismatch)"

text \<open>
  The \<open>try\<close> block of \<open>takeScreenshotWithDiff\<close>. The width and the height passed to
  the differ, and those of the difference image, are the ones of \<open>img1\<close>, the current
  capture; the width and the height of the baseline are not read.
\<close>

definition diffAgainstBaseline ::
  "pixel_compare \<Rightarrow> jsstring \<Rightarrow> enhanced \<Rightarrow> js_error + enhanced" where
  "diffAgainstBaseline cmp dir st =
     (case fs_access (files st) (baselinePath dir) of
        Inl e \<Rightarrow> Inl e
      | Inr u \<Rightarrow>
     (case readPNG (files st) (currentPath dir) of
        Inl e \<Rightarrow> Inl e
      | Inr img1 \<Rightarrow>
     (case readPNG (files st) (baselinePath dir) of
        Inl e \<Rightarrow> Inl e
      | Inr img2 \<Rightarrow>
     (case pixelmatch cmp (data img1) (data img2) (width img1) (height img1) of
        Inl e \<Rightarrow> Inl e
      | Inr (diffData, pixelDiff) \<Rightarrow>
          Inr (st\<lparr>files := (files st)(diffPath dir \<mapsto>
                     \<lparr>width = width img1, height = height img1, data = diffData\<rparr>),
                   screenshots := screenshots st @
                     [\<lparr>name = lit ''diff'', path = diffPath dir, found = None\<rparr>],
                   issues := (if 50 < pixelDiff then issues st @ [Visual_diff pixelDiff]
                              else issues st)\<rparr>)))))"

text \<open>
  \<open>takeScreenshotWithDiff\<close>: the screenshot is written to \<open>current.png\<close> and recorded;
  then the \<open>try\<close> block runs, and whatever it throws is handled by the one \<open>catch\<close>,
  which copies \<open>current.png\<close> over \<open>baseline.png\<close>.
\<close>

definition takeScreenshotWithDiff ::
  "pixel_compare \<Rightarrow> browser_page \<Rightarrow> jsstring \<Rightarrow> enhanced \<Rightarrow> js_error + enhanced" where
  "takeScreenshotWithDiff cmp pg dir st =
     (let st1 = st\<lparr>files := (files st)(currentPath dir \<mapsto> pageScreenshot pg),
                    screenshots := screenshots st @
                      [\<lparr>name = lit ''full-page'', path = currentPath dir, found = None\<rparr>]\<rparr>
      in case diffAgainstBaseline cmp dir st1 of
           Inr st2 \<Rightarrow> Inr st2
         | Inl e \<Rightarrow>
             (case copyFile (files st1) (currentPath dir) (baselinePath dir) of
                Inl e' \<Rightarrow> Inl e'
              | Inr fs' \<Rightarrow> Inr (st1\<lparr>files := fs'\<rparr>)))"

text \<open>
  \<open>analyzeSections\<close>. The expected list is
  \<open>this.figmaDesignSpecs?.[pageName] || this.defaultSections[pageName] || []\<close>
  (an array, also an empty one, is truthy).
\<close>

definition expectedSectionsFor :: "enhanced \<Rightarrow> jsstring \<Rightarrow> jsstring list" where
  "expectedSectionsFor st pageName =
     (case (case figmaDesignSpecs st of None \<Rightarrow> None | Some specs \<Rightarrow> specs pageName) of
        Some l \<Rightarrow> l
      | None \<Rightarrow> (case defaultSections st pageName of Some l \<Rightarrow> l | None \<Rightarrow> []))"

definition selectorOf :: "jsstring \<Rightarrow> jsstring" where
  "selectorOf section =
     lit ''.'' @ section @ lit '', [class*='' @ [0x22] @ section @ [0x22] @
     lit ''], section[id*='' @ [0x22] @ section @ [0x22] @ lit '']''"

text \<open>One iteration of the loop of \<open>analyzeSections\<close>, with its \<open>try\<close>/\<open>catch\<close>.\<close>

definition analyzeSection :: "browser_page \<Rightarrow> jsstring \<Rightarrow> jsstring \<Rightarrow> enhanced \<Rightarrow> enhanced" where
  "analyzeSection pg dir section st =
     (case isVisible pg (selectorOf section) of
        Inl msg \<Rightarrow> st\<lparr>issues := issues st @ [Error_issue section msg]\<rparr>
      | Inr vis \<Rightarrow>
          if vis then
            (case elScreenshot pg (selectorOf section) of
               Inl msg \<Rightarrow> st\<lparr>issues := issues st @ [Error_issue section msg]\<rparr>
             | Inr img \<Rightarrow>
                 st\<lparr>files := (files st)(path_join dir (section @ lit ''.png'') \<mapsto> img),
                    screenshots := screenshots st @
                      [\<lparr>name = section, path = path_join dir (section @ lit ''.png''),
                        found = None\<rparr>]\<rparr>)
          else st\<lparr>issues := issues st @ [Missing_section section None]\<rparr>)"

fun analyzeSectionsLoop ::
  "browser_page \<Rightarrow> jsstring \<Rightarrow> jsstring list \<Rightarrow> enhanced \<Rightarrow> enhanced" where
  "analyzeSectionsLoop pg dir [] st = st"
| "analyzeSectionsLoop pg dir (section # rest) st =
     analyzeSectionsLoop pg dir rest (analyzeSection pg dir section st)"

definition analyzeSections :: "browser_page \<Rightarrow> jsstring \<Rightarrow> jsstring \<Rightarrow> enhanced \<Rightarrow> enhanced" where
  "analyzeSections pg pageName dir st =
     analyzeSectionsLoop pg dir (expectedSectionsFor st pageName) st"

text \<open>\<open>validateStyles\<close>, with the design tokens of the constructor.\<close>

record style_check =
  checkName :: jsstring
  checkSelector :: jsstring
  expectedStyles :: "(jsstring \<times> jsstring) list"

definition colors_primary :: jsstring where "colors_primary = lit ''#0070f3''"
definition colors_secondary :: jsstring where "colors_secondary = lit ''#1c1c1e''"
definition fonts_body :: jsstring where
  "fonts_body = [0x22] @ lit ''Inter'' @ [0x22] @ lit '', sans-serif''"
definition fonts_heading :: jsstring where
  "fonts_heading = [0x22] @ lit ''Poppins'' @ [0x22] @ lit '', sans-serif''"

definition header_check :: style_check where
  "header_check =
     \<lparr>checkName = lit ''header'', checkSelector = lit ''header'',
      expectedStyles = [(lit ''color'', colors_primary), (lit ''font-family'', fonts_heading)]\<rparr>"

definition body_check :: style_check where
  "body_check =
     \<lparr>checkName = lit ''body'', checkSelector = lit ''body'',
      expectedStyles = [(lit ''color'', colors_secondary), (lit ''font-family'', fonts_body)]\<rparr>"

definition footer_check :: style_check where
  "footer_check =
     \<lparr>checkName = lit ''footer'', checkSelector = lit ''footer'',
      expectedStyles = [(lit ''color'', colors_secondary), (lit ''font-family'', fonts_body)]\<rparr>"

definition checks :: "style_check list" where
  "checks = [header_check, body_check, footer_check]"

text \<open>\<open>s.toLowerCase().replace(/['"\s]/g, '')\<close>\<close>

definition normalize :: "jsstring \<Rightarrow> jsstring" where
  "normalize s = filter (\<lambda>c. \<not> (c = 0x27 \<or> c = 0x22 \<or> isWhiteSpace c)) (toLowerCase s)"

definition mismatchMessage :: "jsstring \<Rightarrow> jsstring \<Rightarrow> jsstring \<Rightarrow> jsstring" where
  "mismatchMessage prop expected computedValue =
     lit ''CSS property '' @ [0x22] @ prop @ [0x22] @ lit '' expected '' @ [0x22] @ expected @
     [0x22] @ lit '', but got '' @ [0x22] @ trim computedValue @ [0x22]"

text \<open>
  The inner loop over \<open>Object.entries(check.expectedStyles)\<close>. It runs inside the
  \<open>try\<close> of its check: when a lookup throws, the loop stops with the message, and the
  issues pushed so far stay.
\<close>

fun checkProperties ::
  "browser_page \<Rightarrow> style_check \<Rightarrow> (jsstring \<times> jsstring) list \<Rightarrow> enhanced \<Rightarrow>
   jsstring option \<times> enhanced" where
  "checkProperties pg check [] st = (None, st)"
| "checkProperties pg check ((prop, expected) # rest) st =
     (case getComputedStyle pg (checkSelector check) prop of
        Inl msg \<Rightarrow> (Some msg, st)
      | Inr computedValue \<Rightarrow>
          checkProperties pg check rest
            (if \<not> str_includes (normalize computedValue) (normalize expected)
             then st\<lparr>issues := issues st @
                    [Style_mismatch (checkName check)
                       (mismatchMessage prop expected computedValue)]\<rparr>
             else st))"

definition validateCheck :: "browser_page \<Rightarrow> style_check \<Rightarrow> enhanced \<Rightarrow> enhanced" where
  "validateCheck pg check st =
     (case checkProperties pg check (expectedStyles check) st of
        (None, st') \<Rightarrow> st'
      | (Some msg, st') \<Rightarrow>
          st'\<lparr>issues := issues st' @
                [Error_issue (lit ''style_validation_'' @ checkName check) msg]\<rparr>)"

fun validateChecks :: "browser_page \<Rightarrow> style_check list \<Rightarrow> enhanced \<Rightarrow> enhanced" where
  "validateChecks pg [] st = st"
| "validateChecks pg (check # rest) st = validateChecks pg rest (validateCheck pg check st)"

definition validateStyles :: "browser_page \<Rightarrow> enhanced \<Rightarrow> enhanced" where
  "validateStyles pg st = validateChecks pg checks st"

text \<open>
  \<open>generateReport\<close>: the report object (the timestamp, the URL and the HTML page
  written from it are left out).
\<close>

datatype run_status = PASS | NEEDS_REVIEW | REVIEW

record report =
  summaryStatus :: run_status
  totalScreenshots :: nat
  totalIssues :: nat
  reportScreenshots :: "shot list"
  reportIssues :: "issue list"

definition generateReport_mjs :: "enhanced \<Rightarrow> report" where
  "generateReport_mjs st =
     \<lparr>summaryStatus = (if length (issues st) \<noteq> 0 then REVIEW else PASS),
      totalScreenshots = length (screenshots st),
      totalIssues = length (issues st),
      reportScreenshots = screenshots st,
      reportIssues = issues st\<rparr>"

text \<open>
  The body of the loop of \<open>run\<close> for one page at one viewport, in the directory
  \<open>dir\<close> of that pair. An error of \<open>page.goto\<close> or of \<open>takeScreenshotWithDiff\<close> is
  not caught by \<open>run\<close>.
\<close>

definition runPage ::
  "pixel_compare \<Rightarrow> browser_page \<Rightarrow> jsstring \<Rightarrow> jsstring \<Rightarrow> enhanced \<Rightarrow>
   js_error + report \<times> enhanced" where
  "runPage cmp pg pageName dir st =
     (case navigation pg of
        Some msg \<Rightarrow> Inl (Thrown msg)
      | None \<Rightarrow>
          (case takeScreenshotWithDiff cmp pg dir (st\<lparr>issues := [], screenshots := []\<rparr>) of
             Inl e \<Rightarrow> Inl e
           | Inr st1 \<Rightarrow>
               (let st2 = analyzeSections pg pageName dir st1;
                    st3 = validateStyles pg st2
                in Inr (generateReport_mjs st3, st3))))"

section \<open>The single-page analyzer (quick-start.js)\<close>

text \<open>
  The state of \<open>QuickQAAnalyzer\<close>: the two lists and the design specification set by
  the constructor. The screenshot files it writes are never read back and are not
  modelled.
\<close>

record design_specs =
  expectedColors :: "jsstring list"
  expectedTexts :: "jsstring list"
  expectedSections :: "jsstring list"

record quick = analyzer +
  designSpecs :: design_specs

definition constructor_quick :: quick where
  "constructor_quick =
     \<lparr>issues = [], screenshots = [],
      designSpecs =
        \<lparr>expectedColors = [lit ''#1a4a47'', lit ''#ff4d00'', lit ''#ffffff'', lit ''#f5f5f5''],
         expectedTexts =
           [lit ''A unified switch'',
            lit ''Built for scale'',
            lit ''Powering payments across emerging markets'',
            lit ''Built with local insight. Backed by global scale'',
            lit ''Local '' @ [0x2192] @ lit '' Global''],
         expectedSections =
           [lit ''hero'', lit ''features'', lit ''trust-indicators'', lit ''global-reach'',
            lit ''footer'']\<rparr>\<rparr>"

record section_rule =
  sectionName :: jsstring
  sectionSelector :: jsstring
  sectionDescription :: jsstring

definition sections :: "section_rule list" where
  "sections =
     [\<lparr>sectionName = lit ''hero-section'', sectionSelector = lit ''header, .hero, h1'',
       sectionDescription = lit ''Main hero section with primary heading''\<rparr>,
      \<lparr>sectionName = lit ''navigation'', sectionSelector = lit ''nav, .nav, .navigation'',
       sectionDescription = lit ''Main navigation menu''\<rparr>,
      \<lparr>sectionName = lit ''features'',
       sectionSelector = lit ''.features, .cards, [class*='' @ [0x22] @ lit ''feature'' @ [0x22] @ lit '']'',
       sectionDescription = lit ''Feature cards or sections''\<rparr>,
      \<lparr>sectionName = lit ''trust-section'', sectionSelector = lit ''.trust, .partners, .logos'',
       sectionDescription = lit ''Trust indicators and partner logos''\<rparr>,
      \<lparr>sectionName = lit ''footer'', sectionSelector = lit ''footer'',
       sectionDescription = lit ''Footer section''\<rparr>]"

text \<open>One iteration of the loop of \<open>analyzeViewportSections\<close>, with its \<open>try\<close>/\<open>catch\<close>.\<close>

definition analyzeViewportSection :: "browser_page \<Rightarrow> section_rule \<Rightarrow> quick \<Rightarrow> quick" where
  "analyzeViewportSection pg section st =
     (case isVisible pg (sectionSelector section) of
        Inl msg \<Rightarrow> st\<lparr>issues := issues st @ [Analysis_error (sectionName section) msg]\<rparr>
      | Inr vis \<Rightarrow>
          if vis then
            (case elScreenshot pg (sectionSelector section) of
               Inl msg \<Rightarrow> st\<lparr>issues := issues st @ [Analysis_error (sectionName section) msg]\<rparr>
             | Inr img \<Rightarrow>
                 st\<lparr>screenshots := screenshots st @
                      [\<lparr>name = sectionName section,
                        path = lit ''screenshots/'' @ sectionName section @ lit ''.png'',
                        found = Some True\<rparr>]\<rparr>)
          else st\<lparr>issues := issues st @
                 [Missing_section (sectionName section)
                    (Some (sectionDescription section @ lit '' not found or not visible''))]\<rparr>)"

fun analyzeSectionRules :: "browser_page \<Rightarrow> section_rule list \<Rightarrow> quick \<Rightarrow> quick" where
  "analyzeSectionRules pg [] st = st"
| "analyzeSectionRules pg (section # rest) st =
     analyzeSectionRules pg rest (analyzeViewportSection pg section st)"

definition analyzeViewportSections :: "browser_page \<Rightarrow> quick \<Rightarrow> quick" where
  "analyzeViewportSections pg st = analyzeSectionRules pg sections st"

text \<open>\<open>checkResponsiveDesign\<close> records one screenshot for each of its three viewports.\<close>

definition responsiveShot :: "jsstring \<Rightarrow> shot" where
  "responsiveShot vp =
     \<lparr>name = lit ''responsive-'' @ vp,
      path = lit ''screenshots/responsive-'' @ vp @ lit ''.png'',
      found = None\<rparr>"

definition checkResponsiveDesign :: "quick \<Rightarrow> quick" where
  "checkResponsiveDesign st =
     st\<lparr>screenshots := screenshots st @
          [responsiveShot (lit ''desktop-large''), responsiveShot (lit ''tablet''),
           responsiveShot (lit ''mobile'')]\<rparr>"

definition performVisualAnalysis :: "browser_page \<Rightarrow> quick \<Rightarrow> quick" where
  "performVisualAnalysis pg st =
     checkResponsiveDesign
       (analyzeViewportSections pg
          (st\<lparr>screenshots := screenshots st @
                [\<lparr>name = lit ''full-page'', path = lit ''screenshots/full-page.png'',
                  found = None\<rparr>]\<rparr>))"

text \<open>\<open>validateExpectedContent\<close>: the corpus \<open>allText\<close> and the loop over the expected texts.\<close>

definition allText :: "text_content \<Rightarrow> jsstring" where
  "allText textContent =
     toLowerCase
       (join (lit '' '')
          (map itemText (headings textContent) @ map itemText (paragraphs textContent) @
           map itemText (buttons textContent) @ map itemText (links textContent)))"

definition missingContent :: "jsstring \<Rightarrow> issue" where
  "missingContent expectedText =
     Missing_content expectedText
       (lit ''Expected text '' @ [0x22] @ expectedText @ [0x22] @ lit '' not found on page'')"

fun validateTexts :: "jsstring \<Rightarrow> jsstring list \<Rightarrow> quick \<Rightarrow> quick" where
  "validateTexts corpus [] st = st"
| "validateTexts corpus (expectedText # rest) st =
     validateTexts corpus rest
       (if str_includes corpus (toLowerCase expectedText) then st
        else st\<lparr>issues := issues st @ [missingContent expectedText]\<rparr>)"

definition validateExpectedContent :: "text_content \<Rightarrow> quick \<Rightarrow> quick" where
  "validateExpectedContent textContent st =
     validateTexts (allText textContent) (expectedTexts (designSpecs st)) st"

definition performContentAnalysis :: "browser_page \<Rightarrow> quick \<Rightarrow> quick" where
  "performContentAnalysis pg st = validateExpectedContent (extractText pg) st"

text \<open>
  The corpus in the words of the spec (``concatenate all visible text fragments into
  one lowercase corpus''): only the fragments whose \<open>visible\<close> flag is set. It is
  compared below with \<open>allText\<close>, the corpus the source builds.
\<close>

definition spec_visibleCorpus :: "text_content \<Rightarrow> jsstring" where
  "spec_visibleCorpus textContent =
     toLowerCase
       (join (lit '' '')
          (map itemText
             (filter visible
                (headings textContent @ paragraphs textContent @ buttons textContent @
                 links textContent))))"

text \<open>
  The three scores. Each result carries \<open>score\<close> and \<open>status\<close> (the \<open>details\<close> text and
  the \<open>errorCount\<close> repeat the counts and are left out).
\<close>

datatype tier = GOOD | FAIR | POOR

record assessment =
  score :: jsnum
  status :: tier

definition assessVisualCompliance :: "quick \<Rightarrow> assessment" where
  "assessVisualCompliance st =
     (let totalSections = length (expectedSections (designSpecs st));
          foundSections = length (filter (\<lambda>s. found s \<noteq> Some False) (screenshots st));
          complianceScore = js_times (js_div (real foundSections) (real totalSections)) 100
      in \<lparr>score = complianceScore,
          status = (if js_ge complianceScore 80 then GOOD
                    else if js_ge complianceScore 60 then FAIR else POOR)\<rparr>)"

definition assessContentCompliance :: "quick \<Rightarrow> assessment" where
  "assessContentCompliance st =
     (let totalExpectedTexts = length (expectedTexts (designSpecs st));
          missingTexts = length (filter (\<lambda>i. issue_type i = lit ''missing_content'') (issues st));
          foundTexts = real totalExpectedTexts - real missingTexts;
          complianceScore = js_times (js_div foundTexts (real totalExpectedTexts)) 100
      in \<lparr>score = complianceScore,
          status = (if js_ge complianceScore 80 then GOOD
                    else if js_ge complianceScore 60 then FAIR else POOR)\<rparr>)"

definition calculateTechnicalScore :: "quick \<Rightarrow> assessment" where
  "calculateTechnicalScore st =
     (let errorCount = length (filter (\<lambda>i. issue_type i = lit ''analysis_error'') (issues st));
          baseScore = 100;
          penalty = real errorCount * 10;
          score = Num (max 0 (baseScore - penalty))
      in \<lparr>score = score,
          status = (if js_ge score 80 then GOOD else if js_ge score 60 then FAIR else POOR)\<rparr>)"

text \<open>\<open>generateReport\<close> of quick-start.js, with the analysis of \<open>generateSimpleAIAnalysis\<close>.\<close>

record quick_report = report +
  visualCompliance :: assessment
  contentCompliance :: assessment
  technicalScore :: assessment

definition generateReport :: "quick \<Rightarrow> quick_report" where
  "generateReport st =
     \<lparr>summaryStatus = (if length (issues st) = 0 then PASS else NEEDS_REVIEW),
      totalScreenshots = length (screenshots st),
      totalIssues = length (issues st),
      reportScreenshots = screenshots st,
      reportIssues = issues st,
      visualCompliance = assessVisualCompliance st,
      contentCompliance = assessContentCompliance st,
      technicalScore = calculateTechnicalScore st\<rparr>"

text \<open>
  \<open>run\<close> of quick-start.js: an error of the navigation is caught by \<open>run\<close> and no
  report is made; otherwise the analysis steps run on the fresh object and the
  report is generated (\<open>performTechnicalAnalysis\<close> changes neither list).
\<close>

definition run :: "browser_page \<Rightarrow> js_error + quick_report" where
  "run pg =
     (case navigation pg of
        Some msg \<Rightarrow> Inl (Thrown msg)
      | None \<Rightarrow>
          Inr (generateReport
                 (performContentAnalysis pg (performVisualAnalysis pg constructor_quick))))"

section \<open>Inputs used in the examples\<close>

text \<open>
  A pixel comparison to put in the place of the parameter \<open>cmp\<close>: a pixel counts as
  changed when any of its four channels differs; changed pixels are drawn red.
\<close>

fun pixels :: "8 word list \<Rightarrow> (8 word \<times> 8 word \<times> 8 word \<times> 8 word) list" where
  "pixels (r # g # b # a # rest) = (r, g, b, a) # pixels rest"
| "pixels rest = []"

definition exact_cmp :: pixel_compare where
  "exact_cmp img1 img2 w h =
     (concat (map (\<lambda>(p, q). if p = q then [0, 0, 0, 0] else [255, 0, 0, 255])
        (zip (pixels img1) (pixels img2))),
      length (filter (\<lambda>(p, q). p \<noteq> q) (zip (pixels img1) (pixels img2))))"

text \<open>An opaque image of one grey level.\<close>

definition solid :: "nat \<Rightarrow> nat \<Rightarrow> 8 word \<Rightarrow> image" where
  "solid w h v = \<lparr>width = w, height = h, data = concat (replicate (w * h) [v, v, v, 255])\<rparr>"

text \<open>A page that loads, shows every element and has no text.\<close>

definition page_showing :: "image \<Rightarrow> browser_page" where
  "page_showing img =
     \<lparr>navigation = None, pageScreenshot = img,
      isVisible = (\<lambda>sel. Inr True), elScreenshot = (\<lambda>sel. Inr img),
      getComputedStyle = (\<lambda>sel prop. Inr []),
      extractText = \<lparr>headings = [], paragraphs = [], buttons = [], links = []\<rparr>\<rparr>"

definition home_dir :: jsstring where
  "home_dir = lit ''screenshots/home''"

text \<open>The analyzer of qa-analyzer.mjs with one file on disk: the baseline of the home page.\<close>

definition with_baseline :: "image \<Rightarrow> enhanced" where
  "with_baseline base =
     \<lparr>issues = [], screenshots = [], files = [baselinePath home_dir \<mapsto> base],
      figmaDesignSpecs = None,
      defaultSections = [lit ''home'' \<mapsto> [lit ''hero'', lit ''features'', lit ''footer'']]\<rparr>"

text \<open>The analyzer of quick-start.js after two section lookups have thrown.\<close>

definition two_errors :: quick where
  "two_errors =
     constructor_quick\<lparr>issues :=
       [Analysis_error (lit ''hero-section'') (lit ''Timeout''),
        Analysis_error (lit ''footer'') (lit ''Timeout'')]\<rparr>"

text \<open>
  A full-page capture that has grown by one row of pixels since its baseline was
  stored.
\<close>

definition old_baseline :: image where
  "old_baseline = solid 4 2 0"

definition taller_capture :: image where
  "taller_capture = solid 4 3 0"

text \<open>A baseline and a capture of the same number of pixels and of different shapes.\<close>

definition tall_baseline :: image where
  "tall_baseline = solid 4 16 0"

definition square_capture :: image where
  "square_capture = solid 8 8 255"

text \<open>A page on which the lookup of the section \<open>features\<close> of \<open>analyzeSections\<close> throws.\<close>

definition features_throws :: browser_page where
  "features_throws =
     (page_showing old_baseline)
       \<lparr>isVisible := (\<lambda>sel. if sel = selectorOf (lit ''features'')
                             then Inl (lit ''Timeout 30000ms exceeded'') else Inr True)\<rparr>"

text \<open>A page on which the lookup of the navigation section throws.\<close>

definition nav_throws :: browser_page where
  "nav_throws =
     (page_showing old_baseline)
       \<lparr>isVisible := (\<lambda>sel. if sel = lit ''nav, .nav, .navigation''
                             then Inl (lit ''Timeout 30000ms exceeded'') else Inr True)\<rparr>"

text \<open>A page whose only text is a heading that is not visible.\<close>

definition hidden_heading :: text_content where
  "hidden_heading =
     \<lparr>headings = [\<lparr>itemText = lit ''A unified switch'', visible = False\<rparr>],
      paragraphs = [], buttons = [], links = []\<rparr>"

text \<open>A page whose only text is a heading, the last expected text in another casing.\<close>

definition arrow_page :: text_content where
  "arrow_page =
     \<lparr>headings = [\<lparr>itemText = lit ''local '' @ [0x2192] @ lit '' global'', visible = True\<rparr>],
      paragraphs = [], buttons = [], links = []\<rparr>"



text \<open>The analyzer of quick-start.js with an empty design specification and one screenshot.\<close>

definition unspecified :: quick where
  "unspecified =
     constructor_quick\<lparr>screenshots :=
         [\<lparr>name = lit ''full-page'', path = lit ''screenshots/full-page.png'', found = None\<rparr>],
       designSpecs := \<lparr>expectedColors = [], expectedTexts = [], expectedSections = []\<rparr>\<rparr>"

text \<open>A page that loads and on which all five sections are visible.\<close>

definition all_visible :: browser_page where
  "all_visible = page_showing old_baseline"

section \<open>Properties\<close>

subsection \<open>Auxiliary facts\<close>

lemma paths_distinct:
  "currentPath dir \<noteq> baselinePath dir" "baselinePath dir \<noteq> currentPath dir"
  "currentPath dir \<noteq> diffPath dir" "diffPath dir \<noteq> currentPath dir"
  "baselinePath dir \<noteq> diffPath dir" "diffPath dir \<noteq> baselinePath dir"
  by (simp_all add: currentPath_def baselinePath_def diffPath_def path_join_def lit_def)

lemma str_includes_sublist: "str_includes s t \<longleftrightarrow> sublist t s"
  by (induction s) (auto simp: sublist_Cons_right)

lemma pixels_solid: "pixels (concat (replicate n [v, v, v, 255])) = replicate n (v, v, v, 255)"
  by (induction n) auto

lemma length_quads: "length (concat (replicate n [a, b, c, d])) = n * 4"
  by (induction n) simp_all

lemma solid_fields:
  "width (solid w h v) = w" "height (solid w h v) = h"
  "length (data (solid w h v)) = w * h * 4"
  by (simp_all add: solid_def length_quads)

lemma exact_cmp_solid:
  assumes "w * h = w' * h'"
  shows "snd (exact_cmp (data (solid w h a)) (data (solid w' h' b)) x y) =
           (if a = b then 0 else w * h)"
  using assms by (simp add: exact_cmp_def solid_def pixels_solid zip_replicate)

text \<open>The three ways through \<open>takeScreenshotWithDiff\<close>.\<close>

lemma take_with_baseline:
  assumes "files st (baselinePath dir) = Some base"
      and "pixelmatch cmp (data (pageScreenshot pg)) (data base)
             (width (pageScreenshot pg)) (height (pageScreenshot pg)) = Inr (d, n)"
  shows "takeScreenshotWithDiff cmp pg dir st =
           Inr (st\<lparr>files := (files st)
                      (currentPath dir \<mapsto> pageScreenshot pg,
                       diffPath dir \<mapsto> \<lparr>width = width (pageScreenshot pg),
                                        height = height (pageScreenshot pg), data = d\<rparr>),
                    screenshots := screenshots st @
                      [\<lparr>name = lit ''full-page'', path = currentPath dir, found = None\<rparr>,
                       \<lparr>name = lit ''diff'', path = diffPath dir, found = None\<rparr>],
                    issues := (if 50 < n then issues st @ [Visual_diff n] else issues st)\<rparr>)"
  using assms
  by (simp add: takeScreenshotWithDiff_def diffAgainstBaseline_def fs_access_def readPNG_def
      paths_distinct Let_def)

lemma take_differ_fails:
  assumes "files st (baselinePath dir) = Some base"
      and "pixelmatch cmp (data (pageScreenshot pg)) (data base)
             (width (pageScreenshot pg)) (height (pageScreenshot pg)) = Inl e"
  shows "takeScreenshotWithDiff cmp pg dir st =
           Inr (st\<lparr>files := (files st)(currentPath dir \<mapsto> pageScreenshot pg,
                                        baselinePath dir \<mapsto> pageScreenshot pg),
                    screenshots := screenshots st @
                      [\<lparr>name = lit ''full-page'', path = currentPath dir, found = None\<rparr>]\<rparr>)"
  using assms
  by (simp add: takeScreenshotWithDiff_def diffAgainstBaseline_def fs_access_def readPNG_def
      copyFile_def paths_distinct Let_def)

lemma take_no_baseline:
  assumes "files st (baselinePath dir) = None"
  shows "takeScreenshotWithDiff cmp pg dir st =
           Inr (st\<lparr>files := (files st)(currentPath dir \<mapsto> pageScreenshot pg,
                                        baselinePath dir \<mapsto> pageScreenshot pg),
                    screenshots := screenshots st @
                      [\<lparr>name = lit ''full-page'', path = currentPath dir, found = None\<rparr>]\<rparr>)"
  using assms
  by (simp add: takeScreenshotWithDiff_def diffAgainstBaseline_def fs_access_def readPNG_def
      copyFile_def paths_distinct Let_def)

lemma pixelmatch_solid:
  assumes "w * h = w' * h'" and "a \<noteq> b"
  shows "pixelmatch exact_cmp (data (solid w h a)) (data (solid w' h' b)) w h =
           Inr (fst (exact_cmp (data (solid w h a)) (data (solid w' h' b)) w h), w * h)"
proof -
  have "snd (exact_cmp (data (solid w h a)) (data (solid w' h' b)) w h) = w * h"
    using assms by (simp add: exact_cmp_solid)
  then show ?thesis
    using assms(1) by (simp add: pixelmatch_def solid_fields prod_eq_iff)
qed

subsection \<open>The changed-pixel cutoff\<close>

text \<open>
  Claim C5. When a baseline exists for the key and the pixel differ returns a count
  \<open>n\<close> of changed pixels, \<open>takeScreenshotWithDiff\<close> appends the issue
  \<open>{type: 'visual_diff', pixelsChanged: n}\<close> if and only if \<open>n > 50\<close>, an absolute
  count: 75 changed pixels give exactly that one issue with the count 75, and 50 or
  fewer give none.
\<close>

theorem visual_diff_iff_over_50:
  assumes "files st (baselinePath dir) = Some base"
      and "pixelmatch cmp (data (pageScreenshot pg)) (data base)
             (width (pageScreenshot pg)) (height (pageScreenshot pg)) = Inr (d, n)"
  shows "\<exists>st'. takeScreenshotWithDiff cmp pg dir st = Inr st' \<and>
           issues st' = issues st @ (if 50 < n then [Visual_diff n] else []) \<and>
           (n = 75 \<longrightarrow> issues st' = issues st @ [Visual_diff 75]) \<and>
           (n \<le> 50 \<longrightarrow> issues st' = issues st)"
  by (simp add: take_with_baseline [OF assms])

theorem visual_diff_iff_over_50_witness:
  "\<exists>st'. takeScreenshotWithDiff exact_cmp (page_showing (solid 15 5 255)) home_dir
            (with_baseline (solid 15 5 0)) = Inr st' \<and>
         issues st' = [Visual_diff 75]"
proof -
  let ?pg = "page_showing (solid 15 5 255)"
  have b: "files (with_baseline (solid 15 5 0)) (baselinePath home_dir) = Some (solid 15 5 0)"
    by (simp add: with_baseline_def)
  have s: "pageScreenshot ?pg = solid 15 5 255"
    by (simp add: page_showing_def)
  have "pixelmatch exact_cmp (data (solid 15 5 255)) (data (solid 15 5 0)) 15 5 =
          Inr (fst (exact_cmp (data (solid 15 5 255)) (data (solid 15 5 0)) 15 5), 15 * 5)"
    by (rule pixelmatch_solid) simp_all
  then have p: "pixelmatch exact_cmp (data (pageScreenshot ?pg)) (data (solid 15 5 0))
                  (width (pageScreenshot ?pg)) (height (pageScreenshot ?pg)) =
             Inr (fst (exact_cmp (data (solid 15 5 255)) (data (solid 15 5 0)) 15 5), 75)"
    unfolding s solid_fields by simp
  have i: "issues (with_baseline (solid 15 5 0)) = []"
    by (simp add: with_baseline_def)
  from visual_diff_iff_over_50 [OF b p] i show ?thesis
    by auto
qed

subsection \<open>The overall status\<close>

text \<open>
  Claim C6. The status of the report is \<open>PASS\<close> if and only if the list of issues is
  empty; any issue, whatever its kind, makes it \<open>NEEDS_REVIEW\<close> (quick-start.js) or
  \<open>REVIEW\<close> (qa-analyzer.mjs).
\<close>

theorem pass_iff_no_issues:
  "(summaryStatus (generateReport st) = PASS \<longleftrightarrow> issues st = []) \<and>
   (issues st \<noteq> [] \<longrightarrow> summaryStatus (generateReport st) = NEEDS_REVIEW) \<and>
   (summaryStatus (generateReport_mjs st') = PASS \<longleftrightarrow> issues st' = []) \<and>
   (issues st' \<noteq> [] \<longrightarrow> summaryStatus (generateReport_mjs st') = REVIEW)"
  by (simp add: generateReport_def generateReport_mjs_def)

theorem pass_iff_no_issues_witness:
  "issues two_errors \<noteq> [] \<and> summaryStatus (generateReport two_errors) = NEEDS_REVIEW \<and>
   issues (with_baseline old_baseline) = [] \<and>
   summaryStatus (generateReport_mjs (with_baseline old_baseline)) = PASS"
proof -
  have a: "issues two_errors \<noteq> []"
    by (simp add: two_errors_def)
  have b: "issues (with_baseline old_baseline) = []"
    by (simp add: with_baseline_def)
  from pass_iff_no_issues [of two_errors "with_baseline old_baseline"] a b show ?thesis
    by simp
qed

subsection \<open>The status tiers\<close>

text \<open>
  Claim C10. For each of the three results (visual, content, technical), a numeric
  score of at least 80 has the status \<open>GOOD\<close>, a score of at least 60 and below 80 has
  \<open>FAIR\<close>, and a score below 60 has \<open>POOR\<close>; so 80 is \<open>GOOD\<close>, 79.999 is \<open>FAIR\<close>, 60 is
  \<open>FAIR\<close> and 59.999 is \<open>POOR\<close>.
\<close>

theorem status_tiers_exact:
  fixes x :: real
  assumes "a = assessVisualCompliance st \<or> a = assessContentCompliance st \<or>
           a = calculateTechnicalScore st"
    and "score a = Num x"
  shows "(80 \<le> x \<longrightarrow> status a = GOOD) \<and> (60 \<le> x \<and> x < 80 \<longrightarrow> status a = FAIR) \<and>
         (x < 60 \<longrightarrow> status a = POOR) \<and>
         (x = 80 \<longrightarrow> status a = GOOD) \<and> (x = 79.999 \<longrightarrow> status a = FAIR) \<and>
         (x = 60 \<longrightarrow> status a = FAIR) \<and> (x = 59.999 \<longrightarrow> status a = POOR)"
  using assms
  by (auto simp: assessVisualCompliance_def assessContentCompliance_def
      calculateTechnicalScore_def Let_def)

theorem status_tiers_exact_witness:
  "score (calculateTechnicalScore two_errors) = Num 80 \<and>
   status (calculateTechnicalScore two_errors) = GOOD"
proof -
  have s: "score (calculateTechnicalScore two_errors) = Num 80"
    by (simp add: calculateTechnicalScore_def two_errors_def lit_def)
  have "status (calculateTechnicalScore two_errors) = GOOD"
    using status_tiers_exact [of "calculateTechnicalScore two_errors" two_errors 80] s by simp
  with s show ?thesis by simp
qed

subsection \<open>The baseline on disk\<close>

lemma capture_dims:
  "width taller_capture = width old_baseline" "height taller_capture \<noteq> height old_baseline"
  "taller_capture \<noteq> old_baseline"
  "length (data taller_capture) \<noteq> length (data old_baseline)"
  by (auto simp: taller_capture_def old_baseline_def solid_def length_quads)

lemma differ_refuses_taller_capture:
  "pixelmatch cmp (data (pageScreenshot (page_showing taller_capture))) (data old_baseline)
     (width (pageScreenshot (page_showing taller_capture)))
     (height (pageScreenshot (page_showing taller_capture))) = Inl DimensionMismatch"
  by (simp add: page_showing_def pixelmatch_def capture_dims)

text \<open>
  Where the comparison goes through, the baseline stays as it was; and a first run
  without a baseline stores the capture, which a second run on the same capture
  finds again and leaves in place.
\<close>

lemma baseline_kept_when_differ_succeeds:
  assumes "files st (baselinePath dir) = Some base"
      and "pixelmatch cmp (data (pageScreenshot pg)) (data base)
             (width (pageScreenshot pg)) (height (pageScreenshot pg)) = Inr (d, n)"
  shows "\<exists>st'. takeScreenshotWithDiff cmp pg dir st = Inr st' \<and>
           files st' (baselinePath dir) = Some base"
  using assms(1) by (simp add: take_with_baseline [OF assms] paths_distinct)

lemma first_run_creates_second_run_keeps:
  assumes "files st (baselinePath dir) = None"
      and "length (data (pageScreenshot pg)) =
             width (pageScreenshot pg) * height (pageScreenshot pg) * 4"
      and "snd (cmp (data (pageScreenshot pg)) (data (pageScreenshot pg))
             (width (pageScreenshot pg)) (height (pageScreenshot pg))) = 0"
  shows "\<exists>st1 st2. takeScreenshotWithDiff cmp pg dir st = Inr st1 \<and>
           files st1 (baselinePath dir) = Some (pageScreenshot pg) \<and>
           takeScreenshotWithDiff cmp pg dir st1 = Inr st2 \<and>
           files st2 (baselinePath dir) = Some (pageScreenshot pg) \<and>
           issues st2 = issues st"
proof -
  let ?st1 = "st\<lparr>files := (files st)(currentPath dir \<mapsto> pageScreenshot pg,
                                     baselinePath dir \<mapsto> pageScreenshot pg),
                 screenshots := screenshots st @
                   [\<lparr>name = lit ''full-page'', path = currentPath dir, found = None\<rparr>]\<rparr>"
  let ?c = "cmp (data (pageScreenshot pg)) (data (pageScreenshot pg))
              (width (pageScreenshot pg)) (height (pageScreenshot pg))"
  have 1: "takeScreenshotWithDiff cmp pg dir st = Inr ?st1"
    by (rule take_no_baseline [OF assms(1)])
  have b: "files ?st1 (baselinePath dir) = Some (pageScreenshot pg)"
    by simp
  have p: "pixelmatch cmp (data (pageScreenshot pg)) (data (pageScreenshot pg))
             (width (pageScreenshot pg)) (height (pageScreenshot pg)) = Inr (fst ?c, 0)"
    using assms(2,3) by (simp add: pixelmatch_def prod_eq_iff)
  obtain st2 where 2: "takeScreenshotWithDiff cmp pg dir ?st1 = Inr st2"
    and i: "issues st2 = issues ?st1"
    and f: "files st2 (baselinePath dir) = Some (pageScreenshot pg)"
    using take_with_baseline [OF b p] by (simp add: paths_distinct)
  from 1 2 i f b show ?thesis
    by (intro exI [of _ ?st1] exI [of _ st2]) simp
qed

text \<open>
  Claim C1. The claim is that a key's stored baseline is never overwritten by a
  later run. In \<open>takeScreenshotWithDiff\<close> the one \<open>catch\<close> that creates a missing
  baseline also receives every error of the comparison. Here a baseline of 4 by 2
  pixels is on disk and the page's capture is 4 by 3: the differ refuses the pair,
  and the run replaces the stored baseline by the capture.
\<close>

theorem baseline_overwritten_when_differ_fails:
  "files (with_baseline old_baseline) (baselinePath home_dir) = Some old_baseline \<and>
   map_sum id (\<lambda>st. files st (baselinePath home_dir))
     (takeScreenshotWithDiff exact_cmp (page_showing taller_capture) home_dir
        (with_baseline old_baseline)) = Inr (Some taller_capture) \<and>
   taller_capture \<noteq> old_baseline"
proof -
  have b: "files (with_baseline old_baseline) (baselinePath home_dir) = Some old_baseline"
    by (simp add: with_baseline_def)
  show ?thesis
    unfolding take_differ_fails [OF b differ_refuses_taller_capture]
    by (simp add: b capture_dims page_showing_def)
qed

subsection \<open>Captures and baselines of different sizes\<close>

text \<open>
  A comparison that the differ refuses is swallowed by the \<open>catch\<close> of the capture
  step: the step returns normally, no issue is appended, no diff screenshot is
  recorded and no diff image is written, and the run of the page goes on with the
  validations and its report.
\<close>

lemma refused_comparison_is_swallowed:
  assumes "files st (baselinePath dir) = Some base"
      and "length (data (pageScreenshot pg)) \<noteq> length (data base)"
  shows "pixelmatch cmp (data (pageScreenshot pg)) (data base)
           (width (pageScreenshot pg)) (height (pageScreenshot pg)) = Inl DimensionMismatch \<and>
         (\<exists>st1. takeScreenshotWithDiff cmp pg dir st = Inr st1 \<and>
            issues st1 = issues st \<and>
            screenshots st1 = screenshots st @
              [\<lparr>name = lit ''full-page'', path = currentPath dir, found = None\<rparr>] \<and>
            files st1 (diffPath dir) = files st (diffPath dir)) \<and>
         (navigation pg = None \<longrightarrow>
            (\<exists>st1. takeScreenshotWithDiff cmp pg dir (st\<lparr>issues := [], screenshots := []\<rparr>) = Inr st1 \<and>
               issues st1 = [] \<and>
               runPage cmp pg pageName dir st =
                 Inr (generateReport_mjs (validateStyles pg (analyzeSections pg pageName dir st1)),
                      validateStyles pg (analyzeSections pg pageName dir st1))))"
proof -
  from assms(2) have p: "pixelmatch cmp (data (pageScreenshot pg)) (data base)
           (width (pageScreenshot pg)) (height (pageScreenshot pg)) = Inl DimensionMismatch"
    by (simp add: pixelmatch_def)
  let ?st0 = "st\<lparr>issues := [], screenshots := []\<rparr>"
  have b0: "files ?st0 (baselinePath dir) = Some base"
    using assms(1) by simp
  show ?thesis
    using p
    by (simp add: take_differ_fails [OF assms(1) p] take_differ_fails [OF b0 p] runPage_def
        paths_distinct Let_def)
qed

lemma shapes_differ:
  "width square_capture \<noteq> width tall_baseline" "height square_capture \<noteq> height tall_baseline"
  by (simp_all add: square_capture_def tall_baseline_def solid_fields)

lemma differ_accepts_square_capture:
  "pixelmatch exact_cmp (data (pageScreenshot (page_showing square_capture)))
     (data tall_baseline) (width (pageScreenshot (page_showing square_capture)))
     (height (pageScreenshot (page_showing square_capture))) =
   Inr (fst (exact_cmp (data (solid 8 8 255)) (data (solid 4 16 0)) 8 8), 64)"
proof -
  have s: "pageScreenshot (page_showing square_capture) = solid 8 8 255"
    by (simp add: page_showing_def square_capture_def)
  have "pixelmatch exact_cmp (data (solid 8 8 255)) (data (solid 4 16 0)) 8 8 =
          Inr (fst (exact_cmp (data (solid 8 8 255)) (data (solid 4 16 0)) 8 8), 8 * 8)"
    by (rule pixelmatch_solid) simp_all
  then show ?thesis
    unfolding s tall_baseline_def solid_fields by simp
qed

text \<open>
  Claim C4. The claim is that a capture and a baseline of different width or height
  make the differ fail, that the failure is recorded as an \<open>analysis_error\<close> issue,
  and that no diff is produced. The code does neither. With a baseline of 4 by 2
  pixels and a capture of 4 by 3 the differ fails, and the \<open>catch\<close> of
  \<open>takeScreenshotWithDiff\<close> swallows the error: the list of issues stays empty
  (the \<open>catch\<close> blocks of \<open>analyzeSections\<close> and \<open>validateStyles\<close> push an issue for
  the error they catch). With a baseline of 4 by 16 pixels and a capture of 8 by 8,
  which have the same number of pixels, the differ is handed the two buffers with
  the width and height of the capture only and does not fail: the images are
  compared, a \<open>visual_diff\<close> issue of 64 pixels is appended and the diff image is
  written.
\<close>

theorem size_mismatch_unrecorded_or_diffed:
  "height taller_capture \<noteq> height old_baseline \<and>
   files (with_baseline old_baseline) (baselinePath home_dir) = Some old_baseline \<and>
   map_sum id issues
     (takeScreenshotWithDiff exact_cmp (page_showing taller_capture) home_dir
        (with_baseline old_baseline)) = Inr [] \<and>
   width square_capture \<noteq> width tall_baseline \<and>
   height square_capture \<noteq> height tall_baseline \<and>
   files (with_baseline tall_baseline) (baselinePath home_dir) = Some tall_baseline \<and>
   map_sum id issues
     (takeScreenshotWithDiff exact_cmp (page_showing square_capture) home_dir
        (with_baseline tall_baseline)) = Inr [Visual_diff 64] \<and>
   map_sum id (\<lambda>st. map_option height (files st (diffPath home_dir)))
     (takeScreenshotWithDiff exact_cmp (page_showing square_capture) home_dir
        (with_baseline tall_baseline)) = Inr (Some 8)"
proof -
  have b: "files (with_baseline old_baseline) (baselinePath home_dir) = Some old_baseline"
    by (simp add: with_baseline_def)
  have b': "files (with_baseline tall_baseline) (baselinePath home_dir) = Some tall_baseline"
    by (simp add: with_baseline_def)
  have s: "height (pageScreenshot (page_showing square_capture)) = 8"
    by (simp add: page_showing_def square_capture_def solid_fields)
  have i: "issues (with_baseline old_baseline) = []" "issues (with_baseline tall_baseline) = []"
    by (simp_all add: with_baseline_def)
  show ?thesis
    unfolding take_differ_fails [OF b differ_refuses_taller_capture]
      take_with_baseline [OF b' differ_accepts_square_capture]
    by (simp add: b b' i s capture_dims shapes_differ)
qed

subsection \<open>Structural validation\<close>

lemma analyzeViewportSection_issues:
  "issues (analyzeViewportSection pg s st) =
     issues st @ issues (analyzeViewportSection pg s (st\<lparr>issues := []\<rparr>))"
  by (simp add: analyzeViewportSection_def split: sum.splits)

lemma analyzeViewportSection_issues_indep:
  "issues (analyzeViewportSection pg s (st\<lparr>issues := []\<rparr>)) =
   issues (analyzeViewportSection pg s (st'\<lparr>issues := []\<rparr>))"
  by (simp add: analyzeViewportSection_def split: sum.splits)

lemma analyzeSectionRules_issues:
  "issues (analyzeSectionRules pg secs st) =
     issues st @
     concat (map (\<lambda>s. issues (analyzeViewportSection pg s (st0\<lparr>issues := []\<rparr>))) secs)"
proof (induction secs arbitrary: st)
  case Nil
  then show ?case by simp
next
  case (Cons s secs)
  have "issues (analyzeViewportSection pg s st) =
          issues st @ issues (analyzeViewportSection pg s (st0\<lparr>issues := []\<rparr>))"
    using analyzeViewportSection_issues [of pg s st]
      analyzeViewportSection_issues_indep [of pg s st st0] by simp
  with Cons.IH [of "analyzeViewportSection pg s st"] show ?case by simp
qed

lemma analyzeSection_issues:
  "issues (analyzeSection pg dir s st) =
     issues st @ issues (analyzeSection pg dir s (st0\<lparr>issues := []\<rparr>))"
  by (simp add: analyzeSection_def split: sum.splits)

lemma analyzeSectionsLoop_issues:
  "issues (analyzeSectionsLoop pg dir secs st) =
     issues st @
     concat (map (\<lambda>s. issues (analyzeSection pg dir s (st0\<lparr>issues := []\<rparr>))) secs)"
proof (induction secs arbitrary: st)
  case Nil
  then show ?case by simp
next
  case (Cons s secs)
  from Cons.IH [of "analyzeSection pg dir s st"] analyzeSection_issues [of pg dir s st st0]
  show ?case by simp
qed

lemma expected_home:
  "expectedSectionsFor (with_baseline old_baseline) (lit ''home'') =
     [lit ''hero'', lit ''features'', lit ''footer'']"
  by (simp add: expectedSectionsFor_def with_baseline_def)

lemma features_throws_sections:
  "concat (map (\<lambda>s. issues (analyzeSection features_throws home_dir s
                                ((with_baseline old_baseline)\<lparr>issues := []\<rparr>)))
             [lit ''hero'', lit ''features'', lit ''footer'']) =
     [Error_issue (lit ''features'') (lit ''Timeout 30000ms exceeded'')]"
  by (simp add: analyzeSection_def features_throws_def page_showing_def selectorOf_def lit_def)

text \<open>
  Claim C7, as the spec states it: a lookup that throws is recorded as an
  \<open>analysis_error\<close> issue. It fails for \<open>analyzeSections\<close> of qa-analyzer.mjs: on a
  page where the lookup of the section \<open>features\<close> throws, the issue that is
  appended has the type \<open>'error'\<close>.
\<close>

theorem analyzeSections_error_type_counterexample:
  "isVisible features_throws (selectorOf (lit ''features'')) =
     Inl (lit ''Timeout 30000ms exceeded'') \<and>
   issues (analyzeSections features_throws (lit ''home'') home_dir (with_baseline old_baseline)) =
     [Error_issue (lit ''features'') (lit ''Timeout 30000ms exceeded'')] \<and>
   issue_type (Error_issue (lit ''features'') (lit ''Timeout 30000ms exceeded'')) = lit ''error'' \<and>
   lit ''error'' \<noteq> lit ''analysis_error''"
proof -
  have v: "isVisible features_throws (selectorOf (lit ''features'')) =
             Inl (lit ''Timeout 30000ms exceeded'')"
    by (simp add: features_throws_def)
  have i: "issues (with_baseline old_baseline) = []"
    by (simp add: with_baseline_def)
  have a: "issues (analyzeSections features_throws (lit ''home'') home_dir
                     (with_baseline old_baseline)) =
             [Error_issue (lit ''features'') (lit ''Timeout 30000ms exceeded'')]"
    unfolding analyzeSections_def expected_home
      analyzeSectionsLoop_issues [where ?st0.0 = "with_baseline old_baseline"]
      features_throws_sections
    by (simp add: i)
  have t: "lit ''error'' \<noteq> lit ''analysis_error''"
    by (simp add: lit_def)
  from v a t show ?thesis by simp
qed

text \<open>
  Claim C7, amended. In both structural validators every section of the list is
  evaluated on its own and in the order of the list: the issues of the validation
  are the issues each section yields by itself, one after the other. The list is
  the page's expected-section list in \<open>analyzeSections\<close> (qa-analyzer.mjs) and the
  built-in list of sections in \<open>analyzeViewportSections\<close> (quick-start.js). A section
  whose lookup throws yields one issue with the section's name and the error's
  message, of the type \<open>'error'\<close> in \<open>analyzeSections\<close> and of the type
  \<open>'analysis_error'\<close> in \<open>analyzeViewportSections\<close>, and the sections after it are
  evaluated all the same.
\<close>

theorem section_failure_does_not_abort:
  "issues (analyzeSections pg pageName dir st') =
     issues st' @
     concat (map (\<lambda>s. issues (analyzeSection pg dir s (st'\<lparr>issues := []\<rparr>)))
               (expectedSectionsFor st' pageName)) \<and>
   (isVisible pg (selectorOf sec) = Inl msg \<longrightarrow>
      issues (analyzeSection pg dir sec st') = issues st' @ [Error_issue sec msg]) \<and>
   (isVisible pg (selectorOf sec) = Inr True \<and> elScreenshot pg (selectorOf sec) = Inl msg \<longrightarrow>
      issues (analyzeSection pg dir sec st') = issues st' @ [Error_issue sec msg]) \<and>
   issue_type (Error_issue sec msg) = lit ''error'' \<and>
   issues (analyzeViewportSections pg st) =
     issues st @
     concat (map (\<lambda>s. issues (analyzeViewportSection pg s (st\<lparr>issues := []\<rparr>))) sections) \<and>
   issues (analyzeSectionRules pg secs st) =
     issues st @
     concat (map (\<lambda>s. issues (analyzeViewportSection pg s (st\<lparr>issues := []\<rparr>))) secs) \<and>
   (isVisible pg (sectionSelector s) = Inl msg \<longrightarrow>
      issues (analyzeViewportSection pg s st) = issues st @ [Analysis_error (sectionName s) msg]) \<and>
   (isVisible pg (sectionSelector s) = Inr True \<and> elScreenshot pg (sectionSelector s) = Inl msg \<longrightarrow>
      issues (analyzeViewportSection pg s st) = issues st @ [Analysis_error (sectionName s) msg]) \<and>
   issue_type (Analysis_error (sectionName s) msg) = lit ''analysis_error''"
  by (simp add: analyzeSections_def analyzeSectionsLoop_issues [where ?st0.0 = st']
      analyzeSection_def analyzeViewportSections_def
      analyzeSectionRules_issues [where ?st0.0 = st] analyzeViewportSection_def)

theorem section_failure_does_not_abort_witness:
  "issues (analyzeSections features_throws (lit ''home'') home_dir (with_baseline old_baseline)) =
     [Error_issue (lit ''features'') (lit ''Timeout 30000ms exceeded'')] \<and>
   map name (screenshots (analyzeSections features_throws (lit ''home'') home_dir
                            (with_baseline old_baseline))) =
     [lit ''hero'', lit ''footer''] \<and>
   issues (analyzeViewportSections nav_throws constructor_quick) =
     [Analysis_error (lit ''navigation'') (lit ''Timeout 30000ms exceeded'')] \<and>
   map name (screenshots (analyzeViewportSections nav_throws constructor_quick)) =
     [lit ''hero-section'', lit ''features'', lit ''trust-section'', lit ''footer''] \<and>
   isVisible nav_throws (sectionSelector (sections ! 1)) = Inl (lit ''Timeout 30000ms exceeded'') \<and>
   issues (analyzeViewportSection nav_throws (sections ! 1) two_errors) =
     issues two_errors @
     [Analysis_error (lit ''navigation'') (lit ''Timeout 30000ms exceeded'')]"
proof -
  have c: "issues constructor_quick = []"
    by (simp add: constructor_quick_def)
  have c': "issues (with_baseline old_baseline) = []"
    by (simp add: with_baseline_def)
  from section_failure_does_not_abort [where pg = features_throws and st' = "with_baseline old_baseline"
      and pageName = "lit ''home''" and dir = home_dir, THEN conjunct1]
  have a: "issues (analyzeSections features_throws (lit ''home'') home_dir
                     (with_baseline old_baseline)) =
             [Error_issue (lit ''features'') (lit ''Timeout 30000ms exceeded'')]"
    unfolding expected_home features_throws_sections by (simp add: c')
  have b: "map name (screenshots (analyzeSections features_throws (lit ''home'') home_dir
                            (with_baseline old_baseline))) = [lit ''hero'', lit ''footer'']"
    unfolding analyzeSections_def expected_home
    by (simp add: analyzeSection_def features_throws_def page_showing_def selectorOf_def
        with_baseline_def lit_def)
  have e: "concat (map (\<lambda>s. issues (analyzeViewportSection nav_throws s
                                       (constructor_quick\<lparr>issues := []\<rparr>))) sections) =
             [Analysis_error (lit ''navigation'') (lit ''Timeout 30000ms exceeded'')]"
    by (simp add: sections_def analyzeViewportSection_def nav_throws_def page_showing_def lit_def)
  from section_failure_does_not_abort [where pg = nav_throws and st = constructor_quick,
      THEN conjunct2, THEN conjunct2, THEN conjunct2, THEN conjunct2, THEN conjunct1]
  have i: "issues (analyzeViewportSections nav_throws constructor_quick) =
             [Analysis_error (lit ''navigation'') (lit ''Timeout 30000ms exceeded'')]"
    by (simp add: c e)
  have s: "map name (screenshots (analyzeViewportSections nav_throws constructor_quick)) =
             [lit ''hero-section'', lit ''features'', lit ''trust-section'', lit ''footer'']"
    by (simp add: analyzeViewportSections_def sections_def analyzeViewportSection_def
        nav_throws_def page_showing_def constructor_quick_def lit_def)
  have v: "isVisible nav_throws (sectionSelector (sections ! 1)) =
             Inl (lit ''Timeout 30000ms exceeded'')"
    by (simp add: sections_def nav_throws_def)
  have n: "sectionName (sections ! 1) = lit ''navigation''"
    by (simp add: sections_def)
  from section_failure_does_not_abort [where pg = nav_throws and st = two_errors
      and s = "sections ! 1" and msg = "lit ''Timeout 30000ms exceeded''"] v
  have t: "issues (analyzeViewportSection nav_throws (sections ! 1) two_errors) =
             issues two_errors @
             [Analysis_error (sectionName (sections ! 1)) (lit ''Timeout 30000ms exceeded'')]"
    by blast
  from a b i s v t show ?thesis
    unfolding n by simp
qed

lemma analyzeSection_lookup_throws:
  "isVisible pg (selectorOf s) = Inl msg \<Longrightarrow>
   issues (analyzeSection pg dir s st) = issues st @ [Error_issue s msg]"
  by (simp add: analyzeSection_def)

subsection \<open>Content validation\<close>

lemma validateTexts_issues:
  "issues (validateTexts corpus ts st) =
     issues st @ map missingContent (filter (\<lambda>t. \<not> sublist (toLowerCase t) corpus) ts)"
  by (induction ts arbitrary: st) (simp_all add: str_includes_sublist)

lemma sublist_join: "x \<in> set xs \<Longrightarrow> sublist x (join sep xs)"
proof (induction sep xs rule: join.induct)
  case (3 sep x' y ys)
  show ?case
  proof (cases "x = x'")
    case True
    then show ?thesis by simp
  next
    case False
    with 3 have "sublist x (join sep (y # ys))" by simp
    then have "sublist x ((x' @ sep) @ join sep (y # ys))"
      by (rule sublist_order.order_trans) (rule sublist_append_leftI)
    then show ?thesis by simp
  qed
qed simp_all

lemma toLowerCase_sublist: "sublist x y \<Longrightarrow> sublist (toLowerCase x) (toLowerCase y)"
  unfolding toLowerCase_def by (rule map_mono_sublist)

lemma item_in_allText:
  assumes "item \<in> set (headings tc @ paragraphs tc @ buttons tc @ links tc)"
  shows "sublist (toLowerCase (itemText item)) (allText tc)"
proof -
  have "itemText item \<in> set (map itemText (headings tc) @ map itemText (paragraphs tc) @
          map itemText (buttons tc) @ map itemText (links tc))"
    using assms by auto
  then show ?thesis
    unfolding allText_def by (intro toLowerCase_sublist sublist_join)
qed

text \<open>
  Claim C8, as the spec states it: the corpus is made of the visible fragments, and
  an expected text gets a \<open>missing_content\<close> issue if and only if it does not occur in
  that corpus. It fails: on a page whose only text is a heading that is not visible,
  the expected text of that heading does not occur in the corpus of the visible
  fragments, and yet no issue is appended for it.
\<close>

theorem hidden_text_counts_counterexample:
  "lit ''A unified switch'' \<in> set (expectedTexts (designSpecs constructor_quick)) \<and>
   \<not> sublist (toLowerCase (lit ''A unified switch'')) (spec_visibleCorpus hidden_heading) \<and>
   missingContent (lit ''A unified switch'') \<notin>
     set (issues (validateExpectedContent hidden_heading constructor_quick))"
proof -
  have a: "lit ''A unified switch'' \<in> set (expectedTexts (designSpecs constructor_quick))"
    by (simp add: constructor_quick_def)
  have b: "\<not> sublist (toLowerCase (lit ''A unified switch'')) (spec_visibleCorpus hidden_heading)"
    by (simp add: spec_visibleCorpus_def hidden_heading_def toLowerCase_def lit_def)
  have i: "issues (validateExpectedContent hidden_heading constructor_quick) =
             map missingContent (tl (expectedTexts (designSpecs constructor_quick)))"
    by (simp add: validateExpectedContent_def constructor_quick_def allText_def
        hidden_heading_def toLowerCase_def lit_def lowerUnit_def)
  have c: "missingContent (lit ''A unified switch'') \<notin>
             set (map missingContent (tl (expectedTexts (designSpecs constructor_quick))))"
    by (simp add: constructor_quick_def missingContent_def lit_def)
  from a b c show ?thesis
    unfolding i by simp
qed

text \<open>
  Claim C8, amended. The corpus is the lowercase of all extracted text fragments
  (headings, paragraphs, buttons, links) joined by single spaces, whether they are
  visible or not. For each expected text, in their order, a \<open>missing_content\<close> issue
  is appended if and only if its lowercase is not a substring of the corpus; so a
  text that occurs, in any casing, in any extracted fragment is reported as found.
\<close>

theorem missing_content_iff_absent:
  "issues (validateExpectedContent textContent st) =
     issues st @ map missingContent
       (filter (\<lambda>t. \<not> sublist (toLowerCase t) (allText textContent))
          (expectedTexts (designSpecs st))) \<and>
   (\<forall>item \<in> set (headings textContent @ paragraphs textContent @ buttons textContent @
                  links textContent).
      sublist (toLowerCase t) (toLowerCase (itemText item)) \<longrightarrow>
      sublist (toLowerCase t) (allText textContent))"
  using item_in_allText [of _ textContent]
  by (auto simp: validateExpectedContent_def validateTexts_issues
      intro: sublist_order.order_trans)

theorem missing_content_iff_absent_witness:
  "issues (validateExpectedContent arrow_page constructor_quick) =
     [missingContent (lit ''A unified switch''),
      missingContent (lit ''Built for scale''),
      missingContent (lit ''Powering payments across emerging markets''),
      missingContent (lit ''Built with local insight. Backed by global scale'')] \<and>
   sublist (toLowerCase (lit ''Local '' @ [0x2192] @ lit '' Global'')) (allText arrow_page)"
proof -
  let ?t = "lit ''Local '' @ [0x2192] @ lit '' Global''"
  let ?item = "\<lparr>itemText = lit ''local '' @ [0x2192] @ lit '' global'', visible = True\<rparr>"
  have e: "issues constructor_quick = []"
    by (simp add: constructor_quick_def)
  have f: "filter (\<lambda>t. \<not> sublist (toLowerCase t) (allText arrow_page))
             (expectedTexts (designSpecs constructor_quick)) =
           [lit ''A unified switch'', lit ''Built for scale'',
            lit ''Powering payments across emerging markets'',
            lit ''Built with local insight. Backed by global scale'']"
    by (simp add: str_includes_sublist [symmetric] constructor_quick_def allText_def
        arrow_page_def toLowerCase_def lowerUnit_def lit_def)
  from missing_content_iff_absent [THEN conjunct1, of arrow_page constructor_quick]
  have 1: "issues (validateExpectedContent arrow_page constructor_quick) =
             [missingContent (lit ''A unified switch''),
              missingContent (lit ''Built for scale''),
              missingContent (lit ''Powering payments across emerging markets''),
              missingContent (lit ''Built with local insight. Backed by global scale'')]"
    by (simp add: e f)
  have m: "?item \<in> set (headings arrow_page @ paragraphs arrow_page @ buttons arrow_page @
             links arrow_page)"
    by (simp add: arrow_page_def)
  have l: "sublist (toLowerCase ?t) (toLowerCase (itemText ?item))"
    by (simp add: str_includes_sublist [symmetric] toLowerCase_def lowerUnit_def lit_def)
  from missing_content_iff_absent [THEN conjunct2, of arrow_page ?t] m l
  have 2: "sublist (toLowerCase ?t) (allText arrow_page)"
    by blast
  from 1 2 show ?thesis by simp
qed

subsection \<open>Style validation\<close>







subsection \<open>Scores\<close>

text \<open>
  Claim C2, as the spec states it: with an empty list of expected sections the visual
  score is 100, and with an empty list of expected texts the content score is 100.
  It fails: the scorer divides by the length of the list, and with both lists empty
  the visual score is \<open>Infinity\<close> and the content score is \<open>NaN\<close>.
\<close>

theorem empty_lists_counterexample:
  "expectedSections (designSpecs unspecified) = [] \<and>
   score (assessVisualCompliance unspecified) = PosInfinity \<and>
   score (assessVisualCompliance unspecified) \<noteq> Num 100 \<and>
   expectedTexts (designSpecs unspecified) = [] \<and>
   score (assessContentCompliance unspecified) = NaN \<and>
   score (assessContentCompliance unspecified) \<noteq> Num 100"
  by (simp add: unspecified_def constructor_quick_def assessVisualCompliance_def
      assessContentCompliance_def js_div_def)

text \<open>
  Claim C2, amended. The scorer has no rule for an empty list. When the list of
  expected sections (of expected texts) is not empty, as the lists of the built-in
  design specification are, the score is the finite number
  \<open>found / total * 100\<close> and nothing is divided by zero. When the list is empty
  the division is by zero and the score is not a finite number: \<open>NaN\<close> when the
  numerator is zero, an infinity otherwise.
\<close>

theorem scores_divide_by_list_length:
  "(expectedSections (designSpecs st) \<noteq> [] \<longrightarrow>
      score (assessVisualCompliance st) =
        Num (real (length (filter (\<lambda>s. found s \<noteq> Some False) (screenshots st))) /
             real (length (expectedSections (designSpecs st))) * 100)) \<and>
   (expectedSections (designSpecs st) = [] \<longrightarrow>
      score (assessVisualCompliance st) =
        (if filter (\<lambda>s. found s \<noteq> Some False) (screenshots st) = [] then NaN
         else PosInfinity)) \<and>
   (expectedTexts (designSpecs st) \<noteq> [] \<longrightarrow>
      score (assessContentCompliance st) =
        Num ((real (length (expectedTexts (designSpecs st))) -
              real (length (filter (\<lambda>i. issue_type i = lit ''missing_content'') (issues st)))) /
             real (length (expectedTexts (designSpecs st))) * 100)) \<and>
   (expectedTexts (designSpecs st) = [] \<longrightarrow>
      score (assessContentCompliance st) =
        (if filter (\<lambda>i. issue_type i = lit ''missing_content'') (issues st) = [] then NaN
         else NegInfinity))"
  by (simp add: assessVisualCompliance_def assessContentCompliance_def js_div_def Let_def)

theorem scores_divide_by_list_length_witness:
  "expectedSections (designSpecs two_errors) \<noteq> [] \<and>
   score (assessVisualCompliance two_errors) = Num 0 \<and>
   expectedTexts (designSpecs two_errors) \<noteq> [] \<and>
   score (assessContentCompliance two_errors) = Num 100 \<and>
   expectedSections (designSpecs unspecified) = [] \<and>
   score (assessVisualCompliance unspecified) = PosInfinity \<and>
   expectedTexts (designSpecs unspecified) = [] \<and>
   score (assessContentCompliance unspecified) = NaN"
proof -
  have a: "expectedSections (designSpecs two_errors) \<noteq> []"
          "expectedTexts (designSpecs two_errors) \<noteq> []"
    by (simp_all add: two_errors_def constructor_quick_def)
  have b: "screenshots two_errors = []"
          "filter (\<lambda>i. issue_type i = lit ''missing_content'') (issues two_errors) = []"
          "length (expectedTexts (designSpecs two_errors)) = 5"
    by (simp_all add: two_errors_def constructor_quick_def lit_def)
  have c: "expectedSections (designSpecs unspecified) = []"
          "expectedTexts (designSpecs unspecified) = []"
    by (simp_all add: unspecified_def)
  have d: "filter (\<lambda>s. found s \<noteq> Some False) (screenshots unspecified) \<noteq> []"
          "filter (\<lambda>i. issue_type i = lit ''missing_content'') (issues unspecified) = []"
    by (simp_all add: unspecified_def constructor_quick_def)
  from scores_divide_by_list_length [of two_errors] a
  have 1: "score (assessVisualCompliance two_errors) = Num 0 \<and>
           score (assessContentCompliance two_errors) = Num 100"
    by (simp add: b)
  from scores_divide_by_list_length [of unspecified] c
  have 2: "score (assessVisualCompliance unspecified) = PosInfinity \<and>
           score (assessContentCompliance unspecified) = NaN"
    by (simp add: d)
  from a c 1 2 show ?thesis by simp
qed

lemma validateTexts_keeps:
  "screenshots (validateTexts corpus ts st) = screenshots st"
  "designSpecs (validateTexts corpus ts st) = designSpecs st"
  by (induction ts arbitrary: st) simp_all

lemma analyzeSectionRules_all_shown:
  assumes "\<forall>s \<in> set secs. isVisible pg (sectionSelector s) = Inr True \<and>
             elScreenshot pg (sectionSelector s) = Inr (shown s)"
  shows "screenshots (analyzeSectionRules pg secs st) =
           screenshots st @
             map (\<lambda>s. \<lparr>name = sectionName s,
                        path = lit ''screenshots/'' @ sectionName s @ lit ''.png'',
                        found = Some True\<rparr>) secs \<and>
         designSpecs (analyzeSectionRules pg secs st) = designSpecs st"
  using assms
  by (induction secs arbitrary: st) (simp_all add: analyzeViewportSection_def)

lemma length_sections: "length sections = 5"
  by (simp add: sections_def)

text \<open>The technical score is within its bounds in every state.\<close>

lemma technical_score_bounds:
  "\<exists>x. score (calculateTechnicalScore st) = Num x \<and> 0 \<le> x \<and> x \<le> 100"
  by (simp add: calculateTechnicalScore_def Let_def)

text \<open>
  Claim C3. The claim is that the three scores of a run lie between 0 and 100. The
  visual score of quick-start.js counts every entry of \<open>this.screenshots\<close> whose
  \<open>found\<close> is not \<open>false\<close>: the full-page capture and the three responsive captures
  as well as the sections. On a page where the five sections are visible the run
  records nine screenshots for five expected sections, and the visual score is 180.
\<close>

theorem visual_score_exceeds_100:
  "map_sum id (score \<circ> visualCompliance) (run all_visible) = Inr (Num 180) \<and>
   map_sum id (status \<circ> visualCompliance) (run all_visible) = Inr GOOD \<and>
   map_sum id totalScreenshots (run all_visible) = Inr 9"
proof -
  let ?st = "performVisualAnalysis all_visible constructor_quick"
  let ?fin = "performContentAnalysis all_visible ?st"
  have nav: "navigation all_visible = None"
    by (simp add: all_visible_def page_showing_def)
  have r: "run all_visible = Inr (generateReport ?fin)"
    by (simp add: run_def nav)
  have shown: "\<forall>s \<in> set sections. isVisible all_visible (sectionSelector s) = Inr True \<and>
             elScreenshot all_visible (sectionSelector s) = Inr old_baseline"
    by (simp add: all_visible_def page_showing_def)
  have c: "screenshots constructor_quick = []"
          "length (expectedSections (designSpecs constructor_quick)) = 5"
    by (simp_all add: constructor_quick_def)
  have d: "designSpecs ?fin = designSpecs constructor_quick"
    by (simp add: performContentAnalysis_def validateExpectedContent_def validateTexts_keeps
        performVisualAnalysis_def checkResponsiveDesign_def analyzeViewportSections_def
        analyzeSectionRules_all_shown [OF shown])
  have s: "filter (\<lambda>s. found s \<noteq> Some False) (screenshots ?fin) = screenshots ?fin"
          "length (screenshots ?fin) = 9"
    by (simp_all add: performContentAnalysis_def validateExpectedContent_def validateTexts_keeps
        performVisualAnalysis_def checkResponsiveDesign_def analyzeViewportSections_def
        analyzeSectionRules_all_shown [OF shown] c responsiveShot_def length_sections)
  have v: "assessVisualCompliance ?fin = \<lparr>score = Num 180, status = GOOD\<rparr>"
    by (simp add: assessVisualCompliance_def d s c js_div_def)
  show ?thesis
    unfolding r by (simp add: generateReport_def v s)
qed

end
